theory Spec2Isabelle
  imports Main "HOL-Library.Sublist" "HOL-Library.Word"
begin

section \<open>The feature-flag route guard of ngx-flagr\<close>

text \<open>
  The development embeds \<^verbatim>\<open>canMatchFeatureFlag\<close> of
  \<^verbatim>\<open>projects/core/src/feature-flag.can-match.guard.ts\<close>. The guard reads the routing
  configuration and a route's metadata bag, asks the flag service whether the route's
  flag is enabled, and answers with a boolean, a redirect (a \<^verbatim>\<open>UrlTree\<close>), a promise or
  an observable of these, or throws.
\<close>

subsection \<open>JavaScript values\<close>

text \<open>
  The route's metadata bag is typed \<^verbatim>\<open>any\<close>, and the guard branches on truthiness,
  on \<^verbatim>\<open>typeof\<close> and on \<^verbatim>\<open>instanceof\<close>, so values carry their runtime shape. The universe
  covers \<^verbatim>\<open>undefined\<close>, \<^verbatim>\<open>null\<close>, booleans, numbers, \<^verbatim>\<open>NaN\<close>, strings, symbols (with their
  description), plain objects (with their own properties, in order), the router's
  \<^verbatim>\<open>UrlTree\<close>, promises and observables. Functions are not part of it, so no property of
  an object of the universe is callable.

  A number is a safe integer, given by its sign and its magnitude below \<open>2 ^ 53\<close>: these
  are doubles that the language prints digit for digit, and the sign distinguishes
  \<^verbatim>\<open>-0\<close> from \<^verbatim>\<open>0\<close>. Fractions, larger numbers and the infinities are left out.

  A promise is given by how it settles; an observable by the values it emits, in order,
  and by how the emission ends. A \<^verbatim>\<open>UrlTree\<close> is identified with its serialisation.
\<close>

datatype 'a settled = Pending | Fulfilled 'a | Rejected 'a

datatype 'a completion = Completes | Errors 'a | Unfinished

datatype UrlTree = UrlTree (serialize: string)

datatype jsval =
    JUndefined
  | JNull
  | JBool bool
  | JNum (negative: bool) (magnitude: "53 word")
  | JNaN
  | JStr string
  | JSymbol string
  | JObject "(string \<times> jsval) list"
  | JUrlTree UrlTree
  | JPromise "jsval settled"
  | JObservable "jsval list" "jsval completion"

text \<open>ToBoolean: what \<^verbatim>\<open>!v\<close> and \<^verbatim>\<open>v || w\<close> test.\<close>

fun truthy :: "jsval \<Rightarrow> bool" where
  "truthy JUndefined = False"
| "truthy JNull = False"
| "truthy (JBool b) = b"
| "truthy (JNum neg m) = (m \<noteq> 0)"
| "truthy JNaN = False"
| "truthy (JStr s) = (s \<noteq> [])"
| "truthy (JSymbol _) = True"
| "truthy (JObject _) = True"
| "truthy (JUrlTree _) = True"
| "truthy (JPromise _) = True"
| "truthy (JObservable _ _) = True"

text \<open>\<^verbatim>\<open>a || b\<close>: the left operand when it is truthy, the right one otherwise.\<close>

definition or_js :: "jsval \<Rightarrow> jsval \<Rightarrow> jsval" where
  "or_js a b = (if truthy a then a else b)"

text \<open>Decimal digits of a natural number, as a template literal prints them.\<close>

function show_nat :: "nat \<Rightarrow> string" where
  "show_nat n =
     (if n < 10 then [char_of (48 + n)]
      else show_nat (n div 10) @ [char_of (48 + n mod 10)])"
  by pat_completeness auto
termination
  by (relation "measure id") auto

text \<open>
  Number::toString on a safe integer: both zeros print \<^verbatim>\<open>0\<close>, a negative number prints
  a minus sign before its magnitude.
\<close>

definition show_number :: "bool \<Rightarrow> 53 word \<Rightarrow> string" where
  "show_number neg m =
     (if m = 0 then ''0''
      else if neg then CHR ''-'' # show_nat (unat m) else show_nat (unat m))"

text \<open>
  An error object: \<open>Error\<close> is what \<^verbatim>\<open>new Error(message)\<close> builds, \<open>TypeError\<close> what the
  language throws by itself, with the message the V8 engine gives it.
\<close>

datatype error = Error string | TypeError string

definition symbol_message :: string where
  "symbol_message = ''Cannot convert a Symbol value to a string''"

definition primitive_message :: string where
  "primitive_message = ''Cannot convert object to primitive value''"

text \<open>
  ToString, as applied to the holes of a template literal. It throws a \<^verbatim>\<open>TypeError\<close> on
  a symbol. An object is first turned into a primitive: its \<^verbatim>\<open>toString\<close> is called when
  callable, else its \<^verbatim>\<open>valueOf\<close>, and a \<^verbatim>\<open>TypeError\<close> is thrown when neither gives a
  primitive. An object without a \<^verbatim>\<open>toString\<close> of its own inherits the one that prints
  \<^verbatim>\<open>[object Object]\<close>; with one of its own, which is not callable here, the inherited
  \<^verbatim>\<open>valueOf\<close> returns the object itself (an own \<^verbatim>\<open>valueOf\<close> is not callable either) and the
  conversion throws.
\<close>

fun to_string :: "jsval \<Rightarrow> error + string" where
  "to_string JUndefined = Inr ''undefined''"
| "to_string JNull = Inr ''null''"
| "to_string (JBool b) = Inr (if b then ''true'' else ''false'')"
| "to_string (JNum neg m) = Inr (show_number neg m)"
| "to_string JNaN = Inr ''NaN''"
| "to_string (JStr s) = Inr s"
| "to_string (JSymbol _) = Inl (TypeError symbol_message)"
| "to_string (JObject props) =
     (if ''toString'' \<in> set (map fst props) then Inl (TypeError primitive_message)
      else Inr ''[object Object]'')"
| "to_string (JUrlTree u) = Inr (serialize u)"
| "to_string (JPromise _) = Inr ''[object Promise]''"
| "to_string (JObservable _ _) = Inr ''[object Object]''"

text \<open>
  \<^verbatim>\<open>p.then(f)\<close> with a callback that does not throw and returns no thenable: the
  fulfilment value goes through \<open>f\<close>, a rejection and a pending promise stay as they are.
\<close>

fun then_js :: "(jsval \<Rightarrow> jsval) \<Rightarrow> jsval settled \<Rightarrow> jsval settled" where
  "then_js f Pending = Pending"
| "then_js f (Fulfilled v) = Fulfilled (f v)"
| "then_js f (Rejected r) = Rejected r"

text \<open>
  \<^verbatim>\<open>o.pipe(map(f))\<close>: every emitted value goes through \<open>f\<close>; completion and error
  notifications pass unchanged.
\<close>

definition pipe_map :: "(jsval \<Rightarrow> jsval) \<Rightarrow> jsval list \<Rightarrow> jsval list" where
  "pipe_map f es = map f es"

subsection \<open>Configuration, route and collaborators\<close>

record Keys =
  key_featureFlag :: string
  key_redirectToIfDisabled :: string

record Routing =
  keys :: Keys
  validIfNone :: bool
  redirectToIfDisabled :: jsval

text \<open>
  A route: its \<^verbatim>\<open>path\<close> (possibly undefined) and its metadata bag \<^verbatim>\<open>data\<close> (possibly
  undefined). The bag is given by what a property read finds under each name, on the
  object or on its prototype chain: \<open>None\<close> where the read finds no property and gives
  \<^verbatim>\<open>undefined\<close>.
\<close>

record Route =
  path :: "string option"
  data :: "(string \<rightharpoonup> jsval) option"

text \<open>
  What the guard obtains through \<^verbatim>\<open>inject\<close> and from the framework: the routing
  configuration, the build mode, and three collaborators that are not part of this file
  and are therefore parameters: the predicate \<^verbatim>\<open>isFeatureFlag\<close>, the flag service's
  \<^verbatim>\<open>isEnabled\<close> and the router's \<^verbatim>\<open>parseUrl\<close>. The collaborators are taken to return.
\<close>

record Env =
  routing :: Routing
  isDevMode :: bool
  isFeatureFlag :: "jsval \<Rightarrow> bool"
  isEnabled :: "jsval \<Rightarrow> jsval"
  parseUrl :: "jsval \<Rightarrow> UrlTree"

text \<open>The effects of one invocation, in the order they happen.\<close>

datatype event =
    ConsoleWarn string
  | IsEnabledCall jsval
  | ParseUrlCall jsval

subsection \<open>The guard\<close>

text \<open>\<^verbatim>\<open>route.data?.[k]\<close>\<close>

definition data_get :: "Route \<Rightarrow> string \<Rightarrow> jsval" where
  "data_get route k =
     (case data route of
        None \<Rightarrow> JUndefined
      | Some d \<Rightarrow> (case d k of None \<Rightarrow> JUndefined | Some v \<Rightarrow> v))"

text \<open>\<^verbatim>\<open>${route.path}\<close>\<close>

definition path_text :: "Route \<Rightarrow> string" where
  "path_text route = (case path route of None \<Rightarrow> ''undefined'' | Some p \<Rightarrow> p)"

text \<open>Line 31: \<^verbatim>\<open>route.data?.[keys.featureFlag]\<close>\<close>

definition featureFlag :: "Env \<Rightarrow> Route \<Rightarrow> jsval" where
  "featureFlag env route = data_get route (key_featureFlag (keys (routing env)))"

text \<open>
  Lines 54-55:
  \<^verbatim>\<open>route.data?.[keys.redirectToIfDisabled] || routing.redirectToIfDisabled\<close>
\<close>

definition redirectTarget :: "Env \<Rightarrow> Route \<Rightarrow> jsval" where
  "redirectTarget env route =
     or_js (data_get route (key_redirectToIfDisabled (keys (routing env))))
           (redirectToIfDisabled (routing env))"

definition missing_flag_warning :: "Route \<Rightarrow> string" where
  "missing_flag_warning route =
     ''Route '' @ path_text route @ '' does not have a feature flag specified''"

definition invalid_flag_message :: "Route \<Rightarrow> string \<Rightarrow> string" where
  "invalid_flag_message route s =
     ''Route '' @ path_text route @ '' has an invalid feature flag: '' @ s"

text \<open>
  Lines 45-47: the template literal is evaluated first, and a failing conversion of the
  flag value throws in place of the guard's own error.
\<close>

definition invalid_flag_error :: "Route \<Rightarrow> jsval \<Rightarrow> error" where
  "invalid_flag_error route v =
     (case to_string v of
        Inl e \<Rightarrow> e
      | Inr s \<Rightarrow> Error (invalid_flag_message route s))"

definition unhandled_message :: string where
  "unhandled_message = ''Unhandled return type of `FeatureFlagService#isEnabled`''"

text \<open>
  The guard returns the events of the invocation and its outcome: \<open>Inl\<close> a thrown error,
  \<open>Inr\<close> the returned value.
\<close>

definition canMatchFeatureFlag :: "Env \<Rightarrow> Route \<Rightarrow> event list \<times> (error + jsval)" where
  "canMatchFeatureFlag env route =
     (let flag = featureFlag env route in
      if \<not> truthy flag then
        (if isDevMode env \<and> \<not> validIfNone (routing env)
           then [ConsoleWarn (missing_flag_warning route)] else [],
         Inr (JBool (validIfNone (routing env))))
      else if \<not> isFeatureFlag env flag then
        ([], Inl (invalid_flag_error route flag))
      else
        let enabled = isEnabled env flag;
            target = redirectTarget env route
        in if \<not> truthy target then
             ([IsEnabledCall flag], Inr enabled)
           else
             let redirectTo = JUrlTree (parseUrl env target) in
             ([IsEnabledCall flag, ParseUrlCall target],
              case enabled of
                JBool b \<Rightarrow> Inr (or_js (JBool b) redirectTo)
              | JPromise p \<Rightarrow> Inr (JPromise (then_js (\<lambda>result. or_js result redirectTo) p))
              | JObservable es c \<Rightarrow>
                  Inr (JObservable (pipe_map (\<lambda>result. or_js result redirectTo) es) c)
              | _ \<Rightarrow> Inl (Error unhandled_message)))"

text \<open>The trace of an invocation and its outcome.\<close>

definition events_of :: "Env \<Rightarrow> Route \<Rightarrow> event list" where
  "events_of env route = fst (canMatchFeatureFlag env route)"

definition outcome_of :: "Env \<Rightarrow> Route \<Rightarrow> error + jsval" where
  "outcome_of env route = snd (canMatchFeatureFlag env route)"

fun is_service_call :: "event \<Rightarrow> bool" where
  "is_service_call (IsEnabledCall _) = True"
| "is_service_call _ = False"

fun is_warning :: "event \<Rightarrow> bool" where
  "is_warning (ConsoleWarn _) = True"
| "is_warning _ = False"

fun is_parse_call :: "event \<Rightarrow> bool" where
  "is_parse_call (ParseUrlCall _) = True"
| "is_parse_call _ = False"

text \<open>A value returned at once: neither a promise nor an observable.\<close>

fun synchronous :: "jsval \<Rightarrow> bool" where
  "synchronous (JPromise _) = False"
| "synchronous (JObservable _ _) = False"
| "synchronous _ = True"

text \<open>
  The shapes the guard knows how to transform: \<^verbatim>\<open>typeof v === 'boolean'\<close>,
  \<^verbatim>\<open>v instanceof Promise\<close>, \<^verbatim>\<open>v instanceof Observable\<close>.
\<close>

fun handled_shape :: "jsval \<Rightarrow> bool" where
  "handled_shape (JBool _) = True"
| "handled_shape (JPromise _) = True"
| "handled_shape (JObservable _ _) = True"
| "handled_shape _ = False"

text \<open>
  The text the sample router parses: the value's string where the conversion succeeds,
  the root \<^verbatim>\<open>/\<close> where it fails.
\<close>

fun printed :: "error + string \<Rightarrow> string" where
  "printed (Inr s) = s"
| "printed (Inl _) = ''/''"

subsection \<open>Sample inputs\<close>

definition sample_keys :: Keys where
  "sample_keys = \<lparr> key_featureFlag = ''flag'', key_redirectToIfDisabled = ''redirect'' \<rparr>"

definition sample_env :: "bool \<Rightarrow> bool \<Rightarrow> jsval \<Rightarrow> jsval \<Rightarrow> Env" where
  "sample_env dev vin dflt answer =
     \<lparr> routing = \<lparr> keys = sample_keys, validIfNone = vin, redirectToIfDisabled = dflt \<rparr>,
       isDevMode = dev,
       isFeatureFlag = (\<lambda>v. v = JStr ''beta''),
       isEnabled = (\<lambda>_. answer),
       parseUrl = (\<lambda>v. UrlTree (printed (to_string v))) \<rparr>"

definition sample_route :: "(string \<times> jsval) list \<Rightarrow> Route" where
  "sample_route kvs = \<lparr> path = Some ''admin'', data = Some (map_of kvs) \<rparr>"

definition bare_route :: Route where
  "bare_route = \<lparr> path = Some ''admin'', data = None \<rparr>"

section \<open>Properties\<close>

lemma falsy_flag_run:
  "\<not> truthy (featureFlag env route) \<Longrightarrow>
   canMatchFeatureFlag env route =
     (if isDevMode env \<and> \<not> validIfNone (routing env)
        then [ConsoleWarn (missing_flag_warning route)] else [],
      Inr (JBool (validIfNone (routing env))))"
  by (simp add: canMatchFeatureFlag_def)


lemma no_redirect_run:
  "truthy (featureFlag env route) \<Longrightarrow> isFeatureFlag env (featureFlag env route) \<Longrightarrow>
   \<not> truthy (redirectTarget env route) \<Longrightarrow>
   canMatchFeatureFlag env route =
     ([IsEnabledCall (featureFlag env route)], Inr (isEnabled env (featureFlag env route)))"
  by (simp add: canMatchFeatureFlag_def Let_def)

lemma redirect_run:
  "truthy (featureFlag env route) \<Longrightarrow> isFeatureFlag env (featureFlag env route) \<Longrightarrow>
   truthy (redirectTarget env route) \<Longrightarrow>
   canMatchFeatureFlag env route =
     ([IsEnabledCall (featureFlag env route), ParseUrlCall (redirectTarget env route)],
      case isEnabled env (featureFlag env route) of
        JBool b \<Rightarrow> Inr (or_js (JBool b) (JUrlTree (parseUrl env (redirectTarget env route))))
      | JPromise p \<Rightarrow>
          Inr (JPromise (then_js
            (\<lambda>result. or_js result (JUrlTree (parseUrl env (redirectTarget env route)))) p))
      | JObservable es c \<Rightarrow>
          Inr (JObservable (pipe_map
            (\<lambda>result. or_js result (JUrlTree (parseUrl env (redirectTarget env route)))) es) c)
      | _ \<Rightarrow> Inl (Error unhandled_message))"
  by (simp add: canMatchFeatureFlag_def Let_def)

lemma events_of_cases:
  "events_of env route =
     (if \<not> truthy (featureFlag env route) then
        (if isDevMode env \<and> \<not> validIfNone (routing env)
           then [ConsoleWarn (missing_flag_warning route)] else [])
      else if \<not> isFeatureFlag env (featureFlag env route) then []
      else if \<not> truthy (redirectTarget env route) then [IsEnabledCall (featureFlag env route)]
      else [IsEnabledCall (featureFlag env route), ParseUrlCall (redirectTarget env route)])"
  by (simp add: events_of_def canMatchFeatureFlag_def Let_def)

lemma redirectTarget_falsy_iff:
  "\<not> truthy (redirectTarget env route) \<longleftrightarrow>
   \<not> truthy (data_get route (key_redirectToIfDisabled (keys (routing env)))) \<and>
   \<not> truthy (redirectToIfDisabled (routing env))"
  by (simp add: redirectTarget_def or_js_def)

lemma sample_flag [simp]:
  "featureFlag (sample_env dev vin dflt answer) (sample_route kvs) =
     (case map_of kvs ''flag'' of None \<Rightarrow> JUndefined | Some v \<Rightarrow> v)"
  by (simp add: featureFlag_def data_get_def sample_env_def sample_route_def sample_keys_def)

lemma sample_target [simp]:
  "redirectTarget (sample_env dev vin dflt answer) (sample_route kvs) =
     or_js (case map_of kvs ''redirect'' of None \<Rightarrow> JUndefined | Some v \<Rightarrow> v) dflt"
  by (simp add: redirectTarget_def data_get_def sample_env_def sample_route_def sample_keys_def)

lemma sample_fields [simp]:
  "isFeatureFlag (sample_env dev vin dflt answer) v = (v = JStr ''beta'')"
  "isEnabled (sample_env dev vin dflt answer) v = answer"
  "parseUrl (sample_env dev vin dflt answer) v = UrlTree (printed (to_string v))"
  "isDevMode (sample_env dev vin dflt answer) = dev"
  "validIfNone (routing (sample_env dev vin dflt answer)) = vin"
  "redirectToIfDisabled (routing (sample_env dev vin dflt answer)) = dflt"
  "keys (routing (sample_env dev vin dflt answer)) = sample_keys"
  by (simp_all add: sample_env_def)

lemma sample_data_get [simp]:
  "data_get (sample_route kvs) k = (case map_of kvs k of None \<Rightarrow> JUndefined | Some v \<Rightarrow> v)"
  by (simp add: data_get_def sample_route_def)

lemma sample_path [simp]:
  "path_text (sample_route kvs) = ''admin''"
  "path_text bare_route = ''admin''"
  by (simp_all add: path_text_def sample_route_def bare_route_def)

lemma bare_flag [simp]:
  "featureFlag env bare_route = JUndefined"
  by (simp add: featureFlag_def data_get_def bare_route_def)

text \<open>
  C1. When the route's metadata has no value, or a falsy one, under the configured
  feature-flag key, the guard returns \<^verbatim>\<open>config.routing.validIfNone\<close>, a value that is
  neither a promise nor an observable, and the invocation makes no call to the flag
  service, whatever the service would answer.
\<close>

theorem no_flag_returns_validIfNone:
  assumes "\<not> truthy (featureFlag env route)"
  shows "outcome_of env route = Inr (JBool (validIfNone (routing env)))
       \<and> (\<exists>v. outcome_of env route = Inr v \<and> synchronous v)
       \<and> filter is_service_call (events_of env route) = []"
  using assms by (simp add: outcome_of_def events_of_def falsy_flag_run)

theorem no_flag_returns_validIfNone_witness:
  "\<not> truthy (featureFlag (sample_env True False JUndefined (JPromise Pending)) bare_route)
   \<and> outcome_of (sample_env True False JUndefined (JPromise Pending)) bare_route
       = Inr (JBool False)
   \<and> filter is_service_call
       (events_of (sample_env True False JUndefined (JPromise Pending)) bare_route) = []"
proof -
  have h: "\<not> truthy (featureFlag (sample_env True False JUndefined (JPromise Pending)) bare_route)"
    by simp
  show ?thesis
    using h no_flag_returns_validIfNone[OF h] by simp
qed




lemma or_js_False [simp]: "or_js (JBool False) w = w"
  by (simp add: or_js_def)

lemma or_js_True [simp]: "or_js (JBool True) w = JBool True"
  by (simp add: or_js_def)

lemma pipe_map_length [simp]: "length (pipe_map f es) = length es"
  by (simp add: pipe_map_def)

lemma pipe_map_nth [simp]: "i < length es \<Longrightarrow> pipe_map f es ! i = f (es ! i)"
  by (simp add: pipe_map_def)

text \<open>
  C3, as stated: with a valid flag, a result of \<^verbatim>\<open>isEnabled\<close> that is neither a boolean
  nor a promise nor an observable makes the guard throw, whether or not a redirect target
  is configured. This fails where no redirect target is configured: the service answers
  the string \<^verbatim>\<open>"yes"\<close>, the route and the configuration name no redirect, and the guard
  returns \<^verbatim>\<open>"yes"\<close> as its decision.
\<close>

theorem unhandled_result_counterexample:
  "truthy (featureFlag (sample_env False True JUndefined (JStr ''yes''))
      (sample_route [(''flag'', JStr ''beta'')]))
   \<and> isFeatureFlag (sample_env False True JUndefined (JStr ''yes''))
       (featureFlag (sample_env False True JUndefined (JStr ''yes''))
          (sample_route [(''flag'', JStr ''beta'')]))
   \<and> \<not> handled_shape (isEnabled (sample_env False True JUndefined (JStr ''yes''))
       (featureFlag (sample_env False True JUndefined (JStr ''yes''))
          (sample_route [(''flag'', JStr ''beta'')])))
   \<and> outcome_of (sample_env False True JUndefined (JStr ''yes''))
        (sample_route [(''flag'', JStr ''beta'')]) = Inr (JStr ''yes'')
   \<and> outcome_of (sample_env False True JUndefined (JStr ''yes''))
        (sample_route [(''flag'', JStr ''beta'')]) \<noteq> Inl (Error unhandled_message)"
  by (simp add: outcome_of_def no_redirect_run or_js_def)

text \<open>
  C3, amended: with a valid flag and a redirect target configured, a result of
  \<^verbatim>\<open>isEnabled\<close> that is neither a boolean nor a promise nor an observable makes the guard
  throw the error \<^verbatim>\<open>Unhandled return type of `FeatureFlagService#isEnabled`\<close>; with no
  redirect target configured the guard returns that result unchanged.
\<close>

theorem unhandled_result_throws_with_redirect:
  assumes "truthy (featureFlag env route)"
      and "isFeatureFlag env (featureFlag env route)"
      and "\<not> handled_shape (isEnabled env (featureFlag env route))"
  shows "(truthy (redirectTarget env route) \<longrightarrow>
            outcome_of env route = Inl (Error unhandled_message))
       \<and> (\<not> truthy (redirectTarget env route) \<longrightarrow>
            outcome_of env route = Inr (isEnabled env (featureFlag env route)))"
proof (intro conjI impI)
  assume t: "truthy (redirectTarget env route)"
  show "outcome_of env route = Inl (Error unhandled_message)"
    using assms(3)
    by (cases "isEnabled env (featureFlag env route)")
       (simp_all add: outcome_of_def redirect_run[OF assms(1,2) t])
next
  assume "\<not> truthy (redirectTarget env route)"
  then show "outcome_of env route = Inr (isEnabled env (featureFlag env route))"
    by (simp add: outcome_of_def no_redirect_run[OF assms(1,2)])
qed

theorem unhandled_result_throws_with_redirect_witness:
  "outcome_of (sample_env False True (JStr ''/home'') (JStr ''yes''))
     (sample_route [(''flag'', JStr ''beta'')]) = Inl (Error unhandled_message)
   \<and> outcome_of (sample_env False True JUndefined JNull)
     (sample_route [(''flag'', JStr ''beta'')]) = Inr JNull"
proof -
  let ?R = "sample_route [(''flag'', JStr ''beta'')]"
  let ?E = "sample_env False True (JStr ''/home'') (JStr ''yes'')"
  let ?F = "sample_env False True JUndefined JNull"
  have e1: "truthy (featureFlag ?E ?R)" and e2: "isFeatureFlag ?E (featureFlag ?E ?R)"
    and e3: "\<not> handled_shape (isEnabled ?E (featureFlag ?E ?R))"
    and e4: "truthy (redirectTarget ?E ?R)"
    by (simp_all add: or_js_def)
  have f1: "truthy (featureFlag ?F ?R)" and f2: "isFeatureFlag ?F (featureFlag ?F ?R)"
    and f3: "\<not> handled_shape (isEnabled ?F (featureFlag ?F ?R))"
    and f4: "\<not> truthy (redirectTarget ?F ?R)"
    by (simp_all add: or_js_def)
  show ?thesis
    using unhandled_result_throws_with_redirect[OF e1 e2 e3] e4
          unhandled_result_throws_with_redirect[OF f1 f2 f3] f4
    by simp
qed

text \<open>
  C4. With a valid flag, when neither the route's metadata under the redirect key nor the
  configuration's \<^verbatim>\<open>redirectToIfDisabled\<close> is truthy, the guard returns exactly what the
  flag service returned: the same value, hence of the same shape.
\<close>

theorem no_redirect_returns_service_result:
  assumes "truthy (featureFlag env route)"
      and "isFeatureFlag env (featureFlag env route)"
      and "\<not> truthy (data_get route (key_redirectToIfDisabled (keys (routing env))))"
      and "\<not> truthy (redirectToIfDisabled (routing env))"
  shows "outcome_of env route = Inr (isEnabled env (featureFlag env route))"
proof -
  have "\<not> truthy (redirectTarget env route)"
    using assms(3,4) by (simp add: redirectTarget_falsy_iff)
  then show ?thesis
    by (simp add: outcome_of_def no_redirect_run[OF assms(1,2)])
qed

theorem no_redirect_returns_service_result_witness:
  "outcome_of (sample_env False True (JStr []) (JPromise (Fulfilled (JBool False))))
     (sample_route [(''flag'', JStr ''beta'')]) = Inr (JPromise (Fulfilled (JBool False)))"
proof -
  let ?R = "sample_route [(''flag'', JStr ''beta'')]"
  let ?E = "sample_env False True (JStr []) (JPromise (Fulfilled (JBool False)))"
  have h1: "truthy (featureFlag ?E ?R)" and h2: "isFeatureFlag ?E (featureFlag ?E ?R)"
    and h3: "\<not> truthy (data_get ?R (key_redirectToIfDisabled (keys (routing ?E))))"
    and h4: "\<not> truthy (redirectToIfDisabled (routing ?E))"
    by (simp_all add: sample_keys_def)
  show ?thesis
    using no_redirect_returns_service_result[OF h1 h2 h3 h4] by simp
qed

text \<open>
  C5. With a valid flag and a redirect target configured, the target being the route's
  metadata value under the redirect key when that is truthy and the configuration's
  \<^verbatim>\<open>redirectToIfDisabled\<close> otherwise: when \<^verbatim>\<open>isEnabled\<close> returns \<^verbatim>\<open>false\<close> the decision is
  the \<^verbatim>\<open>UrlTree\<close> that \<^verbatim>\<open>parseUrl\<close> gives for the target; when it returns a promise
  fulfilled with \<^verbatim>\<open>false\<close> the decision is a promise fulfilled with that \<^verbatim>\<open>UrlTree\<close>; when
  it returns an observable the decision is an observable that ends the same way and emits
  that \<^verbatim>\<open>UrlTree\<close> wherever the service's observable emits \<^verbatim>\<open>false\<close>.
\<close>

theorem disabled_flag_redirects:
  assumes "truthy (featureFlag env route)"
      and "isFeatureFlag env (featureFlag env route)"
      and "target = (if truthy (data_get route (key_redirectToIfDisabled (keys (routing env))))
                     then data_get route (key_redirectToIfDisabled (keys (routing env)))
                     else redirectToIfDisabled (routing env))"
      and "truthy target"
  shows "(isEnabled env (featureFlag env route) = JBool False \<longrightarrow>
            outcome_of env route = Inr (JUrlTree (parseUrl env target)))
       \<and> (isEnabled env (featureFlag env route) = JPromise (Fulfilled (JBool False)) \<longrightarrow>
            outcome_of env route = Inr (JPromise (Fulfilled (JUrlTree (parseUrl env target)))))
       \<and> (\<forall>es c. isEnabled env (featureFlag env route) = JObservable es c \<longrightarrow>
            (\<exists>es'. outcome_of env route = Inr (JObservable es' c)
                 \<and> length es' = length es
                 \<and> (\<forall>i. i < length es \<and> es ! i = JBool False \<longrightarrow>
                        es' ! i = JUrlTree (parseUrl env target))))"
proof -
  have tg: "redirectTarget env route = target"
    using assms(3) by (simp add: redirectTarget_def or_js_def)
  have t: "truthy (redirectTarget env route)"
    using assms(4) tg by simp
  note run = redirect_run[OF assms(1,2) t, unfolded tg]
  show ?thesis
    by (intro conjI impI allI) (auto simp add: outcome_of_def run)
qed

theorem disabled_flag_redirects_witness:
  "outcome_of (sample_env False True (JStr ''/home'') (JBool False))
     (sample_route [(''flag'', JStr ''beta''), (''redirect'', JStr ''/upgrade'')])
     = Inr (JUrlTree (UrlTree ''/upgrade''))
   \<and> outcome_of (sample_env False True (JStr ''/home'') (JPromise (Fulfilled (JBool False))))
     (sample_route [(''flag'', JStr ''beta'')])
     = Inr (JPromise (Fulfilled (JUrlTree (UrlTree ''/home''))))
   \<and> (\<exists>es'. outcome_of (sample_env False True (JStr ''/home'') (JObservable [JBool False] Completes))
          (sample_route [(''flag'', JStr ''beta''), (''redirect'', JStr ''/upgrade'')])
          = Inr (JObservable es' Completes)
        \<and> length es' = 1 \<and> es' ! 0 = JUrlTree (UrlTree ''/upgrade''))"
proof -
  let ?R = "sample_route [(''flag'', JStr ''beta''), (''redirect'', JStr ''/upgrade'')]"
  let ?Q = "sample_route [(''flag'', JStr ''beta'')]"
  let ?A = "sample_env False True (JStr ''/home'') (JBool False)"
  let ?B = "sample_env False True (JStr ''/home'') (JPromise (Fulfilled (JBool False)))"
  let ?C = "sample_env False True (JStr ''/home'') (JObservable [JBool False] Completes)"
  have a: "truthy (featureFlag ?A ?R)" "isFeatureFlag ?A (featureFlag ?A ?R)"
    "JStr ''/upgrade'' = (if truthy (data_get ?R (key_redirectToIfDisabled (keys (routing ?A))))
        then data_get ?R (key_redirectToIfDisabled (keys (routing ?A)))
        else redirectToIfDisabled (routing ?A))"
    "truthy (JStr ''/upgrade'')"
    by (simp_all add: sample_keys_def)
  have b: "truthy (featureFlag ?B ?Q)" "isFeatureFlag ?B (featureFlag ?B ?Q)"
    "JStr ''/home'' = (if truthy (data_get ?Q (key_redirectToIfDisabled (keys (routing ?B))))
        then data_get ?Q (key_redirectToIfDisabled (keys (routing ?B)))
        else redirectToIfDisabled (routing ?B))"
    "truthy (JStr ''/home'')"
    by (simp_all add: sample_keys_def)
  have c: "truthy (featureFlag ?C ?R)" "isFeatureFlag ?C (featureFlag ?C ?R)"
    "JStr ''/upgrade'' = (if truthy (data_get ?R (key_redirectToIfDisabled (keys (routing ?C))))
        then data_get ?R (key_redirectToIfDisabled (keys (routing ?C)))
        else redirectToIfDisabled (routing ?C))"
    "truthy (JStr ''/upgrade'')"
    by (simp_all add: sample_keys_def)
  show ?thesis
    using disabled_flag_redirects[OF a] disabled_flag_redirects[OF b]
          disabled_flag_redirects[OF c]
    by simp
qed

text \<open>
  C6. With a valid flag and a redirect target configured: when \<^verbatim>\<open>isEnabled\<close> returns
  \<^verbatim>\<open>true\<close> the decision is \<^verbatim>\<open>true\<close>; when it returns a promise fulfilled with \<^verbatim>\<open>true\<close> the
  decision is a promise fulfilled with \<^verbatim>\<open>true\<close>; when it returns an observable the
  decision is an observable that ends the same way and emits \<^verbatim>\<open>true\<close> wherever the
  service's observable emits \<^verbatim>\<open>true\<close>. The redirect never replaces \<^verbatim>\<open>true\<close>.
\<close>

theorem enabled_flag_allows:
  assumes "truthy (featureFlag env route)"
      and "isFeatureFlag env (featureFlag env route)"
      and "truthy (redirectTarget env route)"
  shows "(isEnabled env (featureFlag env route) = JBool True \<longrightarrow>
            outcome_of env route = Inr (JBool True))
       \<and> (isEnabled env (featureFlag env route) = JPromise (Fulfilled (JBool True)) \<longrightarrow>
            outcome_of env route = Inr (JPromise (Fulfilled (JBool True))))
       \<and> (\<forall>es c. isEnabled env (featureFlag env route) = JObservable es c \<longrightarrow>
            (\<exists>es'. outcome_of env route = Inr (JObservable es' c)
                 \<and> length es' = length es
                 \<and> (\<forall>i. i < length es \<and> es ! i = JBool True \<longrightarrow> es' ! i = JBool True)))"
  by (intro conjI impI allI) (auto simp add: outcome_of_def redirect_run[OF assms])

theorem enabled_flag_allows_witness:
  "outcome_of (sample_env False True (JStr ''/home'') (JBool True))
     (sample_route [(''flag'', JStr ''beta'')]) = Inr (JBool True)
   \<and> outcome_of (sample_env False True (JStr ''/home'') (JPromise (Fulfilled (JBool True))))
     (sample_route [(''flag'', JStr ''beta'')]) = Inr (JPromise (Fulfilled (JBool True)))
   \<and> (\<exists>es'. outcome_of (sample_env False True (JStr ''/home'') (JObservable [JBool True] Completes))
          (sample_route [(''flag'', JStr ''beta'')]) = Inr (JObservable es' Completes)
        \<and> length es' = 1 \<and> es' ! 0 = JBool True)"
proof -
  let ?R = "sample_route [(''flag'', JStr ''beta'')]"
  let ?A = "sample_env False True (JStr ''/home'') (JBool True)"
  let ?B = "sample_env False True (JStr ''/home'') (JPromise (Fulfilled (JBool True)))"
  let ?C = "sample_env False True (JStr ''/home'') (JObservable [JBool True] Completes)"
  have a: "truthy (featureFlag ?A ?R)" "isFeatureFlag ?A (featureFlag ?A ?R)"
    "truthy (redirectTarget ?A ?R)"
    by (simp_all add: or_js_def)
  have b: "truthy (featureFlag ?B ?R)" "isFeatureFlag ?B (featureFlag ?B ?R)"
    "truthy (redirectTarget ?B ?R)"
    by (simp_all add: or_js_def)
  have c: "truthy (featureFlag ?C ?R)" "isFeatureFlag ?C (featureFlag ?C ?R)"
    "truthy (redirectTarget ?C ?R)"
    by (simp_all add: or_js_def)
  show ?thesis
    using enabled_flag_allows[OF a] enabled_flag_allows[OF b] enabled_flag_allows[OF c]
    by simp
qed

text \<open>
  C7. The invocation prints the warning exactly when the build is in development mode,
  the route's feature-flag value is falsy and \<^verbatim>\<open>validIfNone\<close> is false, and then prints it
  once; outside development mode it prints none; and two invocations that differ in the
  build mode only have the same outcome.
\<close>

theorem warning_iff_dev_and_decision_independent:
  "(filter is_warning (events_of env route) \<noteq> [] \<longleftrightarrow>
      (isDevMode env \<and> \<not> truthy (featureFlag env route) \<and> \<not> validIfNone (routing env)))
   \<and> length (filter is_warning (events_of env route)) \<le> 1
   \<and> (\<not> isDevMode env \<longrightarrow> filter is_warning (events_of env route) = [])
   \<and> outcome_of (env\<lparr>isDevMode := d\<rparr>) route = outcome_of (env\<lparr>isDevMode := d'\<rparr>) route"
proof -
  have out: "outcome_of (env\<lparr>isDevMode := d\<rparr>) route = outcome_of (env\<lparr>isDevMode := d'\<rparr>) route"
    by (simp add: outcome_of_def canMatchFeatureFlag_def Let_def featureFlag_def
        redirectTarget_def)
  show ?thesis
    using out by (simp add: events_of_cases)
qed

theorem warning_iff_dev_and_decision_independent_witness:
  "filter is_warning (events_of (sample_env True False JUndefined (JBool True)) bare_route) \<noteq> []
   \<and> filter is_warning (events_of (sample_env False False JUndefined (JBool True)) bare_route) = []
   \<and> outcome_of (sample_env True False JUndefined (JBool True)) bare_route
       = outcome_of (sample_env False False JUndefined (JBool True)) bare_route"
proof -
  let ?E = "sample_env True False JUndefined (JBool True)"
  let ?F = "sample_env False False JUndefined (JBool True)"
  have m: "?E\<lparr>isDevMode := True\<rparr> = ?E" "?E\<lparr>isDevMode := False\<rparr> = ?F"
    by (simp_all add: sample_env_def)
  show ?thesis
    using warning_iff_dev_and_decision_independent[of ?E bare_route True False]
          warning_iff_dev_and_decision_independent[of ?F bare_route True False]
    by (simp add: m)
qed

text \<open>
  C8. In the events of one invocation no call to the flag service stands before the
  warning. (An invocation that prints the warning makes no call to the flag service
  after it either.)
\<close>

theorem warning_precedes_service_call:
  assumes "events_of env route = before @ ConsoleWarn m # after"
  shows "filter is_service_call before = [] \<and> filter is_service_call after = []"
proof -
  have "events_of env route = [ConsoleWarn (missing_flag_warning route)]"
    using assms by (auto simp add: events_of_cases Cons_eq_append_conv split: if_splits)
  with assms have "[ConsoleWarn (missing_flag_warning route)] = before @ ConsoleWarn m # after"
    by simp
  then have "before = [] \<and> after = []"
    by (cases before) simp_all
  then show ?thesis by simp
qed

theorem warning_precedes_service_call_witness:
  "events_of (sample_env True False JUndefined (JBool True)) bare_route
     = [] @ ConsoleWarn ''Route admin does not have a feature flag specified'' # []
   \<and> filter is_service_call ([] :: event list) = []"
proof -
  let ?E = "sample_env True False JUndefined (JBool True)"
  have h: "events_of ?E bare_route
             = [] @ ConsoleWarn ''Route admin does not have a feature flag specified'' # []"
    by (simp add: events_of_cases missing_flag_warning_def)
  show ?thesis
    using h warning_precedes_service_call[OF h] by simp
qed

text \<open>
  C9. With a valid flag and a redirect target configured, the invocation calls
  \<^verbatim>\<open>parseUrl\<close> exactly once, on the target, whatever the flag service returns, also when
  it returns \<^verbatim>\<open>true\<close> or a promise of \<^verbatim>\<open>true\<close> and the parsed URL is not the decision.
\<close>

theorem parseUrl_called_once:
  assumes "truthy (featureFlag env route)"
      and "isFeatureFlag env (featureFlag env route)"
      and "truthy (redirectTarget env route)"
  shows "filter is_parse_call (events_of env route) = [ParseUrlCall (redirectTarget env route)]"
  using assms by (simp add: events_of_cases)

theorem parseUrl_called_once_witness:
  "filter is_parse_call
     (events_of (sample_env False True (JStr ''/home'') (JPromise (Fulfilled (JBool True))))
        (sample_route [(''flag'', JStr ''beta'')])) = [ParseUrlCall (JStr ''/home'')]
   \<and> outcome_of (sample_env False True (JStr ''/home'') (JPromise (Fulfilled (JBool True))))
        (sample_route [(''flag'', JStr ''beta'')]) = Inr (JPromise (Fulfilled (JBool True)))"
proof -
  let ?R = "sample_route [(''flag'', JStr ''beta'')]"
  let ?E = "sample_env False True (JStr ''/home'') (JPromise (Fulfilled (JBool True)))"
  have h: "truthy (featureFlag ?E ?R)" "isFeatureFlag ?E (featureFlag ?E ?R)"
    "truthy (redirectTarget ?E ?R)"
    by (simp_all add: or_js_def)
  have "outcome_of ?E ?R = Inr (JPromise (Fulfilled (JBool True)))"
    by (simp add: outcome_of_def redirect_run[OF h])
  then show ?thesis
    using parseUrl_called_once[OF h] by (simp add: or_js_def)
qed

text \<open>
  C10. When the route's feature-flag value is truthy, the invocation's events and outcome
  do not depend on \<^verbatim>\<open>validIfNone\<close>: two configurations that differ in \<^verbatim>\<open>validIfNone\<close> only
  give the same events and the same outcome, a returned value or a thrown error.
\<close>

theorem validIfNone_irrelevant_with_flag:
  assumes "truthy (featureFlag env route)"
  shows "canMatchFeatureFlag (env\<lparr>routing := (routing env)\<lparr>validIfNone := a\<rparr>\<rparr>) route
       = canMatchFeatureFlag (env\<lparr>routing := (routing env)\<lparr>validIfNone := b\<rparr>\<rparr>) route"
proof -
  have f: "\<And>v. featureFlag (env\<lparr>routing := (routing env)\<lparr>validIfNone := v\<rparr>\<rparr>) route
             = featureFlag env route"
    by (simp add: featureFlag_def)
  have r: "\<And>v. redirectTarget (env\<lparr>routing := (routing env)\<lparr>validIfNone := v\<rparr>\<rparr>) route
             = redirectTarget env route"
    by (simp add: redirectTarget_def)
  show ?thesis
    using assms by (simp add: canMatchFeatureFlag_def Let_def f r)
qed

theorem validIfNone_irrelevant_with_flag_witness:
  "truthy (featureFlag (sample_env False True JUndefined (JBool False))
      (sample_route [(''flag'', JStr ''beta'')]))
   \<and> canMatchFeatureFlag (sample_env False True JUndefined (JBool False))
        (sample_route [(''flag'', JStr ''beta'')])
     = canMatchFeatureFlag (sample_env False False JUndefined (JBool False))
        (sample_route [(''flag'', JStr ''beta'')])
   \<and> outcome_of (sample_env False False JUndefined (JBool False))
        (sample_route [(''flag'', JStr ''beta'')]) = Inr (JBool False)"
proof -
  let ?R = "sample_route [(''flag'', JStr ''beta'')]"
  let ?E = "sample_env False True JUndefined (JBool False)"
  let ?F = "sample_env False False JUndefined (JBool False)"
  have h: "truthy (featureFlag ?E ?R)" by simp
  have m: "?E\<lparr>routing := (routing ?E)\<lparr>validIfNone := True\<rparr>\<rparr> = ?E"
    "?E\<lparr>routing := (routing ?E)\<lparr>validIfNone := False\<rparr>\<rparr> = ?F"
    by (simp_all add: sample_env_def)
  have o: "outcome_of ?F ?R = Inr (JBool False)"
    by (simp add: outcome_of_def no_redirect_run or_js_def)
  show ?thesis
    using h o validIfNone_irrelevant_with_flag[OF h, of True False] by (simp add: m)
qed

end
